theory Spec2Isabelle
  imports Complex_Main "HOL-Library.Sublist"
begin

section \<open>Strings\<close>

text \<open>
  A transcript is the UTF-8 text of the input file, a list of bytes. Python's
  \<^verbatim>\<open>str.lower()\<close> is modelled on the ASCII letters; every other byte is kept.
  All the keywords of \<^verbatim>\<open>pricing_engine.py\<close> are ASCII.
\<close>

definition lower_char :: "char \<Rightarrow> char" where
  "lower_char c =
     (case map_of (zip ''ABCDEFGHIJKLMNOPQRSTUVWXYZ'' ''abcdefghijklmnopqrstuvwxyz'') c of
        Some d \<Rightarrow> d
      | None \<Rightarrow> c)"

definition upper_char :: "char \<Rightarrow> char" where
  "upper_char c =
     (case map_of (zip ''abcdefghijklmnopqrstuvwxyz'' ''ABCDEFGHIJKLMNOPQRSTUVWXYZ'') c of
        Some d \<Rightarrow> d
      | None \<Rightarrow> c)"

definition lower :: "string \<Rightarrow> string" where
  "lower s = map lower_char s"

text \<open>\<^verbatim>\<open>s.capitalize()\<close>: first character upper case, the rest lower case.\<close>

definition capitalize :: "string \<Rightarrow> string" where
  "capitalize s = (case s of [] \<Rightarrow> [] | c # cs \<Rightarrow> upper_char c # lower cs)"

text \<open>\<^verbatim>\<open>p in s\<close> on strings: \<open>p\<close> occurs in \<open>s\<close> as a contiguous substring.\<close>

fun py_in :: "string \<Rightarrow> string \<Rightarrow> bool" where
  "py_in p [] = (p = [])"
| "py_in p (c # cs) = (prefix p (c # cs) \<or> py_in p cs)"

section \<open>The two regular expressions of \<^verbatim>\<open>parse_transcript\<close>\<close>

text \<open>
  Python's \<^verbatim>\<open>\s\<close> on a \<^verbatim>\<open>str\<close> matches the Unicode whitespace characters
  (those of \<^verbatim>\<open>str.isspace\<close>, the separators 0x1C to 0x1F among them). There are 29;
  each is listed by its UTF-8 encoding.
\<close>

definition space_encodings :: "string list" where
  "space_encodings =
     [[CHR 0x09], [CHR 0x0A], [CHR 0x0B],
      [CHR 0x0C], [CHR 0x0D], [CHR 0x1C],
      [CHR 0x1D], [CHR 0x1E], [CHR 0x1F],
      [CHR 0x20], [CHR 0xC2, CHR 0x85], [CHR 0xC2, CHR 0xA0],
      [CHR 0xE1, CHR 0x9A, CHR 0x80], [CHR 0xE2, CHR 0x80, CHR 0x80], [CHR 0xE2, CHR 0x80, CHR 0x81],
      [CHR 0xE2, CHR 0x80, CHR 0x82], [CHR 0xE2, CHR 0x80, CHR 0x83], [CHR 0xE2, CHR 0x80, CHR 0x84],
      [CHR 0xE2, CHR 0x80, CHR 0x85], [CHR 0xE2, CHR 0x80, CHR 0x86], [CHR 0xE2, CHR 0x80, CHR 0x87],
      [CHR 0xE2, CHR 0x80, CHR 0x88], [CHR 0xE2, CHR 0x80, CHR 0x89], [CHR 0xE2, CHR 0x80, CHR 0x8A],
      [CHR 0xE2, CHR 0x80, CHR 0xA8], [CHR 0xE2, CHR 0x80, CHR 0xA9], [CHR 0xE2, CHR 0x80, CHR 0xAF],
      [CHR 0xE2, CHR 0x81, CHR 0x9F], [CHR 0xE3, CHR 0x80, CHR 0x80]]"

text \<open>
  \<^verbatim>\<open>\d\<close> matches the Unicode decimal digits (those of \<^verbatim>\<open>str.isdecimal\<close>). They
  come in runs of ten, zero to nine, whose UTF-8 encodings differ in the last byte only;
  each run is listed by the bytes before the last one and the last byte of its zero
  (Unicode 14.0, 66 runs; the first is ASCII).
\<close>

definition decimal_blocks :: "(string \<times> nat) list" where
  "decimal_blocks =
     [([], 0x30), ([CHR 0xD9], 0xA0),
      ([CHR 0xDB], 0xB0), ([CHR 0xDF], 0x80),
      ([CHR 0xE0, CHR 0xA5], 0xA6), ([CHR 0xE0, CHR 0xA7], 0xA6),
      ([CHR 0xE0, CHR 0xA9], 0xA6), ([CHR 0xE0, CHR 0xAB], 0xA6),
      ([CHR 0xE0, CHR 0xAD], 0xA6), ([CHR 0xE0, CHR 0xAF], 0xA6),
      ([CHR 0xE0, CHR 0xB1], 0xA6), ([CHR 0xE0, CHR 0xB3], 0xA6),
      ([CHR 0xE0, CHR 0xB5], 0xA6), ([CHR 0xE0, CHR 0xB7], 0xA6),
      ([CHR 0xE0, CHR 0xB9], 0x90), ([CHR 0xE0, CHR 0xBB], 0x90),
      ([CHR 0xE0, CHR 0xBC], 0xA0), ([CHR 0xE1, CHR 0x81], 0x80),
      ([CHR 0xE1, CHR 0x82], 0x90), ([CHR 0xE1, CHR 0x9F], 0xA0),
      ([CHR 0xE1, CHR 0xA0], 0x90), ([CHR 0xE1, CHR 0xA5], 0x86),
      ([CHR 0xE1, CHR 0xA7], 0x90), ([CHR 0xE1, CHR 0xAA], 0x80),
      ([CHR 0xE1, CHR 0xAA], 0x90), ([CHR 0xE1, CHR 0xAD], 0x90),
      ([CHR 0xE1, CHR 0xAE], 0xB0), ([CHR 0xE1, CHR 0xB1], 0x80),
      ([CHR 0xE1, CHR 0xB1], 0x90), ([CHR 0xEA, CHR 0x98], 0xA0),
      ([CHR 0xEA, CHR 0xA3], 0x90), ([CHR 0xEA, CHR 0xA4], 0x80),
      ([CHR 0xEA, CHR 0xA7], 0x90), ([CHR 0xEA, CHR 0xA7], 0xB0),
      ([CHR 0xEA, CHR 0xA9], 0x90), ([CHR 0xEA, CHR 0xAF], 0xB0),
      ([CHR 0xEF, CHR 0xBC], 0x90), ([CHR 0xF0, CHR 0x90, CHR 0x92], 0xA0),
      ([CHR 0xF0, CHR 0x90, CHR 0xB4], 0xB0), ([CHR 0xF0, CHR 0x91, CHR 0x81], 0xA6),
      ([CHR 0xF0, CHR 0x91, CHR 0x83], 0xB0), ([CHR 0xF0, CHR 0x91, CHR 0x84], 0xB6),
      ([CHR 0xF0, CHR 0x91, CHR 0x87], 0x90), ([CHR 0xF0, CHR 0x91, CHR 0x8B], 0xB0),
      ([CHR 0xF0, CHR 0x91, CHR 0x91], 0x90), ([CHR 0xF0, CHR 0x91, CHR 0x93], 0x90),
      ([CHR 0xF0, CHR 0x91, CHR 0x99], 0x90), ([CHR 0xF0, CHR 0x91, CHR 0x9B], 0x80),
      ([CHR 0xF0, CHR 0x91, CHR 0x9C], 0xB0), ([CHR 0xF0, CHR 0x91, CHR 0xA3], 0xA0),
      ([CHR 0xF0, CHR 0x91, CHR 0xA5], 0x90), ([CHR 0xF0, CHR 0x91, CHR 0xB1], 0x90),
      ([CHR 0xF0, CHR 0x91, CHR 0xB5], 0x90), ([CHR 0xF0, CHR 0x91, CHR 0xB6], 0xA0),
      ([CHR 0xF0, CHR 0x96, CHR 0xA9], 0xA0), ([CHR 0xF0, CHR 0x96, CHR 0xAB], 0x80),
      ([CHR 0xF0, CHR 0x96, CHR 0xAD], 0x90), ([CHR 0xF0, CHR 0x9D, CHR 0x9F], 0x8E),
      ([CHR 0xF0, CHR 0x9D, CHR 0x9F], 0x98), ([CHR 0xF0, CHR 0x9D, CHR 0x9F], 0xA2),
      ([CHR 0xF0, CHR 0x9D, CHR 0x9F], 0xAC), ([CHR 0xF0, CHR 0x9D, CHR 0x9F], 0xB6),
      ([CHR 0xF0, CHR 0x9E, CHR 0x85], 0x80), ([CHR 0xF0, CHR 0x9E, CHR 0x8B], 0xB0),
      ([CHR 0xF0, CHR 0x9E, CHR 0xA5], 0x90), ([CHR 0xF0, CHR 0x9F, CHR 0xAF], 0xB0)]"

text \<open>The first element of a list for which \<open>f\<close> gives a result.\<close>

fun first_some :: "('a \<Rightarrow> 'b option) \<Rightarrow> 'a list \<Rightarrow> 'b option" where
  "first_some f [] = None"
| "first_some f (x # xs) = (case f x of Some y \<Rightarrow> Some y | None \<Rightarrow> first_some f xs)"

text \<open>One whitespace character at the head of \<open>s\<close>: the rest of \<open>s\<close>.\<close>

definition space_at :: "string \<Rightarrow> string option" where
  "space_at s =
     first_some (\<lambda>e. if prefix e s then Some (drop (length e) s) else None) space_encodings"

text \<open>One decimal digit at the head of \<open>s\<close>: its value and the rest of \<open>s\<close>.\<close>

definition digit_in_block :: "string \<Rightarrow> string \<times> nat \<Rightarrow> (nat \<times> string) option" where
  "digit_in_block s blk =
     (case blk of (p, lo) \<Rightarrow>
        if prefix p s then
          (case drop (length p) s of
             [] \<Rightarrow> None
           | b # r \<Rightarrow>
               if lo \<le> of_char b \<and> of_char b \<le> lo + 9 then Some (of_char b - lo, r)
               else None)
        else None)"

definition digit_at :: "string \<Rightarrow> (nat \<times> string) option" where
  "digit_at s = first_some (digit_in_block s) decimal_blocks"

text \<open>\<^verbatim>\<open>\d+\<close>, greedy: the values of the longest run of digits at the head, and the rest.\<close>

function take_digits :: "string \<Rightarrow> nat list \<times> string" where
  "take_digits [] = ([], [])"
| "take_digits (c # cs) =
     (case digit_at (c # cs) of
        None \<Rightarrow> ([], c # cs)
      | Some (d, r) \<Rightarrow> (case take_digits r of (ds, r') \<Rightarrow> (d # ds, r')))"
  by pat_completeness auto
termination
proof (relation "measure length")
  show "wf (measure length)" by simp
next
  fix c :: char and cs :: string and x :: "nat \<times> string" and d :: nat and r :: string
  assume a: "digit_at (c # cs) = Some x" and x: "(d, r) = x"
  have "first_some (digit_in_block s) blks = Some (d, r) \<Longrightarrow> length r < length s"
    for s and blks :: "(string \<times> nat) list"
  proof (induction blks)
    case Nil
    then show ?case by simp
  next
    case (Cons blk blks)
    show ?case
    proof (cases "digit_in_block s blk")
      case None
      with Cons show ?thesis by simp
    next
      case (Some y)
      with Cons.prems have "digit_in_block s blk = Some (d, r)" by simp
      then obtain k b where "drop k s = b # r"
        by (auto simp: digit_in_block_def split: prod.splits if_splits list.splits)
      then have "length (drop k s) = Suc (length r)" by simp
      then show ?thesis by simp
    qed
  qed
  from this [of "c # cs" decimal_blocks] a x
  show "(r, c # cs) \<in> measure length"
    by (simp add: digit_at_def)
qed

text \<open>\<^verbatim>\<open>m[\<twosuperior>2]\<close>: the letter m, then the digit 2 or the superscript two (U+00B2, bytes C2 B2).\<close>

definition m2_here :: "string \<Rightarrow> bool" where
  "m2_here s = (prefix ''m2'' s \<or> prefix [CHR ''m'', CHR 0xC2, CHR 0xB2] s)"

text \<open>
  \<^verbatim>\<open>(\d+)\s?m[\<twosuperior>2]\<close> anchored at the head of \<open>s\<close>; the result is group 1, as digit
  values. The digits are taken greedily; giving one back leaves a digit where whitespace or
  m is wanted, so only the longest run can match. \<^verbatim>\<open>\s?\<close> first tries to take one
  whitespace character, then none.
\<close>

definition match_area_at :: "string \<Rightarrow> nat list option" where
  "match_area_at s =
     (case take_digits s of (ds, r) \<Rightarrow>
        if ds = [] then None
        else if (case space_at r of None \<Rightarrow> False | Some r' \<Rightarrow> m2_here r') \<or> m2_here r
        then Some ds else None)"

text \<open>
  \<^verbatim>\<open>re.search\<close>: the leftmost position where the pattern matches. No match starts
  inside the encoding of a character: no digit starts with a continuation byte.
\<close>

fun search_area :: "string \<Rightarrow> nat list option" where
  "search_area [] = None"
| "search_area (c # cs) =
     (case match_area_at (c # cs) of Some ds \<Rightarrow> Some ds | None \<Rightarrow> search_area cs)"

fun search_city :: "string \<Rightarrow> string option" where
  "search_city [] = None"
| "search_city (c # cs) =
     (if prefix ''marseille'' (c # cs) then Some ''marseille''
      else if prefix ''paris'' (c # cs) then Some ''paris''
      else if prefix ''lyon'' (c # cs) then Some ''lyon''
      else search_city cs)"

text \<open>
  The float that \<^verbatim>\<open>float(digits)\<close> gives: a finite double or, for a digit string too
  large, infinity. Elsewhere Python floats are modelled as real numbers: the value of a
  float is the number it stands for, and float arithmetic is exact arithmetic.
\<close>

datatype pyfloat = Finite real | Infinity

text \<open>\<^verbatim>\<open>int.bit_length\<close>.\<close>

fun bit_length :: "nat \<Rightarrow> nat" where
  "bit_length n = (if n = 0 then 0 else Suc (bit_length (n div 2)))"

declare bit_length.simps [simp del]

text \<open>
  The double nearest to a natural number, ties to the even mantissa: 53 bits are kept;
  what rounds to \<open>2\<^sup>1\<^sup>0\<^sup>2\<^sup>4\<close> or more is infinity.
\<close>

definition round_to_double :: "nat \<Rightarrow> pyfloat" where
  "round_to_double n =
     (if n < 2 ^ 53 then Finite (real n)
      else
        let e = bit_length n - 53;
            q = n div 2 ^ e;
            r = n mod 2 ^ e;
            h = 2 ^ (e - 1);
            q' = (if r < h then q else if h < r then q + 1
                  else if even q then q else q + 1);
            v = q' * 2 ^ e
        in if 2 ^ 1024 \<le> v then Infinity else Finite (real v))"

definition float_of_digits :: "nat list \<Rightarrow> pyfloat" where
  "float_of_digits ds = round_to_double (foldl (\<lambda>n d. 10 * n + d) 0 ds)"

section \<open>\<^verbatim>\<open>parse_transcript\<close>\<close>

text \<open>
  A task dictionary always has the key \<^verbatim>\<open>task_name\<close>. The key \<^verbatim>\<open>area_m2\<close> is
  optional: \<open>None\<close> is a dictionary without the key, \<open>Some None\<close> has the key with the
  value \<^verbatim>\<open>None\<close>, \<open>Some (Some a)\<close> has the key with the float \<open>a\<close>.
\<close>

record task_intent =
  task_name :: string
  area_m2 :: "pyfloat option option"

record parsed_intent =
  zone :: string
  city :: "string option"
  budget_flag :: bool
  tasks :: "task_intent list"
  parsed_area_m2 :: "pyfloat option"

definition parse_transcript :: "string \<Rightarrow> parsed_intent" where
  "parse_transcript text =
     (let low = lower text;
          zone_v = (if py_in ''bathroom'' low then ''bathroom'' else ''general'');
          area_v = map_option float_of_digits (search_area low);
          city_v = map_option capitalize (search_city low);
          budget_v = py_in ''budget'' low;
          t0 = [];
          t1 = (if py_in ''tile'' low
                then t0 @ [\<lparr>task_name = ''Floor Tiling (ceramic)'', area_m2 = Some area_v\<rparr>]
                else t0);
          t2 = (if py_in ''paint'' low \<or> py_in ''repaint'' low
                then t1 @ [\<lparr>task_name = ''Repaint Walls'', area_m2 = None\<rparr>]
                else t1);
          t3 = (if py_in ''plumb'' low
                then t2 @ [\<lparr>task_name = ''Shower Plumbing (redo)'', area_m2 = None\<rparr>]
                else t2);
          t4 = (if py_in ''toilet'' low
                then t3 @ [\<lparr>task_name = ''Replace Toilet'', area_m2 = None\<rparr>]
                else t3);
          t5 = (if py_in ''vanity'' low
                then t4 @ [\<lparr>task_name = ''Install Vanity'', area_m2 = None\<rparr>]
                else t4);
          t6 = (if py_in ''remove old tile'' low \<or> py_in ''remove the old tiles'' low
                then t5 @ [\<lparr>task_name = ''Demolition & Disposal'', area_m2 = None\<rparr>]
                else t5)
      in \<lparr>zone = zone_v, city = city_v, budget_flag = budget_v, tasks = t6,
          parsed_area_m2 = area_v\<rparr>)"

text \<open>
  The task detection the way the specification words it: an ordered table of triggers,
  each a set of phrases with the task it produces (the flag says whether the task carries
  the parsed area); every trigger one of whose phrases occurs in the lowered text
  contributes its task, in table order.
\<close>

definition trigger_table :: "(string list \<times> string \<times> bool) list" where
  "trigger_table =
     [([''tile''], ''Floor Tiling (ceramic)'', True),
      ([''paint'', ''repaint''], ''Repaint Walls'', False),
      ([''plumb''], ''Shower Plumbing (redo)'', False),
      ([''toilet''], ''Replace Toilet'', False),
      ([''vanity''], ''Install Vanity'', False),
      ([''remove old tile'', ''remove the old tiles''], ''Demolition & Disposal'', False)]"

definition spec_tasks :: "string \<Rightarrow> pyfloat option \<Rightarrow> task_intent list" where
  "spec_tasks low area =
     map (\<lambda>(ps, n, a). \<lparr>task_name = n, area_m2 = (if a then Some area else None)\<rparr>)
       (filter (\<lambda>(ps, n, a). list_ex (\<lambda>p. py_in p low) ps) trigger_table)"

section \<open>Numbers\<close>

text \<open>
  \<^verbatim>\<open>round(x, n)\<close> on a float: the nearest multiple of \<open>10\<^sup>-\<^sup>n\<close>, a tie going to the
  even multiple.
\<close>

definition py_round :: "real \<Rightarrow> nat \<Rightarrow> real" where
  "py_round x n =
     (let y = x * 10 ^ n; f = \<lfloor>y\<rfloor>; d = y - of_int f in
      of_int (if d < 1 / 2 then f else if 1 / 2 < d then f + 1
              else if even f then f else f + 1) / 10 ^ n)"

text \<open>\<^verbatim>\<open>uuid.uuid4().hex\<close>: the 128-bit integer of the UUID as 32 lower-case hex digits.\<close>

definition hex_digit :: "nat \<Rightarrow> char" where
  "hex_digit d = ''0123456789abcdef'' ! (d mod 16)"

definition uuid_hex :: "nat \<Rightarrow> string" where
  "uuid_hex u = map (\<lambda>i. hex_digit (u div 16 ^ (31 - i))) [0..<32]"

text \<open>
  The random draw of \<^verbatim>\<open>uuid.uuid4()\<close> is an argument: \<open>u\<close> is the integer of the
  UUID drawn by this call. A version-4 UUID has the version nibble 4 and the variant bits 10.
\<close>

definition is_uuid4 :: "nat \<Rightarrow> bool" where
  "is_uuid4 u = (u < 2 ^ 128 \<and> (u div 2 ^ 76) mod 16 = 4 \<and> (u div 2 ^ 62) mod 4 = 2)"

definition generate_quote_id :: "nat \<Rightarrow> string" where
  "generate_quote_id u = ''donizo-'' @ take 8 (uuid_hex u)"

section \<open>The rate and cost providers\<close>

text \<open>
  The modules \<^verbatim>\<open>pricing_logic.material_db\<close>, \<^verbatim>\<open>pricing_logic.labor_calc\<close> and
  \<^verbatim>\<open>pricing_logic.vat_rules\<close> are not part of the sources at hand; the functions
  imported from them are parameters of the model. Each is a total function to a float.
  A quantity or an area can be the float parsed from the transcript.
\<close>

record providers =
  get_material_cost :: "string \<Rightarrow> pyfloat \<Rightarrow> string \<Rightarrow> real"
  estimate_hours :: "string \<Rightarrow> pyfloat option \<Rightarrow> real"
  compute_labor_cost :: "real \<Rightarrow> string \<Rightarrow> real"
  hourly_rate_of :: "string \<Rightarrow> real"
  get_vat_rate :: "string \<Rightarrow> string \<Rightarrow> real"

text \<open>
  A sample instance, agreeing with the values asserted in \<^verbatim>\<open>tests/test_logic.py\<close>
  (25 per square metre of tiles and 40 per hour in Marseille, Paris a quarter dearer,
  0.9 hours per square metre of tiling rounded up to the quarter hour, VAT 0.20).
  It serves to run the model on concrete transcripts, with finite quantities and areas.
\<close>

definition sample_providers :: providers where
  "sample_providers =
     \<lparr>get_material_cost = (\<lambda>sku q c.
          (if sku = ''tiles_ceramic_m2'' then 25 else 100)
            * (case q of Finite x \<Rightarrow> x | Infinity \<Rightarrow> 0)
            * (if c = ''Paris'' then 5 / 4 else 1)),
      estimate_hours = (\<lambda>tname area.
          (case area of
             None \<Rightarrow> 2
           | Some (Finite a) \<Rightarrow> of_int \<lceil>9 / 10 * a * 4\<rceil> / 4
           | Some Infinity \<Rightarrow> 0)),
      compute_labor_cost = (\<lambda>h c. h * (if c = ''Paris'' then 50 else 40)),
      hourly_rate_of = (\<lambda>c. if c = ''Paris'' then 50 else 40),
      get_vat_rate = (\<lambda>tname c. 1 / 5)\<rparr>"


text \<open>The providers with every lookup made for the city \<open>c\<close>, whatever city is asked for.\<close>

definition at_city :: "string \<Rightarrow> providers \<Rightarrow> providers" where
  "at_city c P =
     \<lparr>get_material_cost = (\<lambda>sku q _. get_material_cost P sku q c),
      estimate_hours = estimate_hours P,
      compute_labor_cost = (\<lambda>h _. compute_labor_cost P h c),
      hourly_rate_of = (\<lambda>_. hourly_rate_of P c),
      get_vat_rate = (\<lambda>tname _. get_vat_rate P tname c)\<rparr>"

text \<open>
  Providers whose hours, costs and VAT rates are not negative, for quantities, areas and
  hours that are not negative.
\<close>

fun float_nonneg :: "pyfloat \<Rightarrow> bool" where
  "float_nonneg (Finite x) = (0 \<le> x)"
| "float_nonneg Infinity = True"

definition nonneg_providers :: "providers \<Rightarrow> bool" where
  "nonneg_providers P =
     ((\<forall>sku q c. float_nonneg q \<longrightarrow> 0 \<le> get_material_cost P sku q c) \<and>
      (\<forall>tname. 0 \<le> estimate_hours P tname None) \<and>
      (\<forall>tname a. float_nonneg a \<longrightarrow> 0 \<le> estimate_hours P tname (Some a)) \<and>
      (\<forall>h c. 0 \<le> h \<longrightarrow> 0 \<le> compute_labor_cost P h c) \<and>
      (\<forall>tname c. 0 \<le> get_vat_rate P tname c))"

section \<open>Pricing one task\<close>

datatype error = TypeError | ZeroDivisionError

record material_line =
  name :: string
  qty :: pyfloat
  unit_cost :: real
  total :: real

text \<open>\<^verbatim>\<open>task.get("area_m2")\<close> and \<^verbatim>\<open>task.get("area_m2", d)\<close>: the default is for a missing key only.\<close>

definition task_get_area :: "task_intent \<Rightarrow> pyfloat option" where
  "task_get_area task = (case area_m2 task of None \<Rightarrow> None | Some v \<Rightarrow> v)"

definition task_get_area_default :: "task_intent \<Rightarrow> pyfloat \<Rightarrow> pyfloat option" where
  "task_get_area_default task d = (case area_m2 task of None \<Rightarrow> Some d | Some v \<Rightarrow> v)"

text \<open>
  \<^verbatim>\<open>cost / qty\<close>: a quantity of zero raises ZeroDivisionError; a finite cost divided
  by infinity is 0.
\<close>

fun float_div :: "real \<Rightarrow> pyfloat \<Rightarrow> error + real" where
  "float_div x (Finite y) = (if y = 0 then Inl ZeroDivisionError else Inr (x / y))"
| "float_div x Infinity = Inr 0"

text \<open>
  The material dispatch of \<^verbatim>\<open>build_quote\<close>, returning \<^verbatim>\<open>materials\<close> and
  \<^verbatim>\<open>mat_cost\<close>. In the tile branch the quantity can be \<^verbatim>\<open>None\<close>, and then
  \<^verbatim>\<open>cost / qty\<close> raises TypeError (if the lookup has not raised it before).
\<close>

definition materials_for ::
  "providers \<Rightarrow> string \<Rightarrow> task_intent \<Rightarrow> error + (material_line list \<times> real)" where
  "materials_for P cty task =
     (let tname = task_name task in
      if py_in ''Tile'' tname then
        (case task_get_area_default task (Finite 4) of
           None \<Rightarrow> Inl TypeError
         | Some q \<Rightarrow>
             let cost = get_material_cost P ''tiles_ceramic_m2'' q cty in
             (case float_div cost q of
                Inl e \<Rightarrow> Inl e
              | Inr uc \<Rightarrow>
                  Inr ([\<lparr>name = ''tiles_ceramic_m2'', qty = q, unit_cost = uc,
                         total = cost\<rparr>], 0 + cost)))
      else if py_in ''Paint'' tname then
        (let q = 5; cost = get_material_cost P ''paint_litre'' (Finite q) cty in
         Inr ([\<lparr>name = ''paint_litre'', qty = Finite q, unit_cost = cost / q,
                total = cost\<rparr>],
              0 + cost))
      else if py_in ''Plumbing'' tname then
        (let cost = get_material_cost P ''plumbing_parts'' (Finite 1) cty in
         Inr ([\<lparr>name = ''plumbing_parts'', qty = Finite 1, unit_cost = cost, total = cost\<rparr>],
              0 + cost))
      else if py_in ''Toilet'' tname then
        (let cost = get_material_cost P ''toilet_standard'' (Finite 1) cty in
         Inr ([\<lparr>name = ''toilet_standard'', qty = Finite 1, unit_cost = cost, total = cost\<rparr>],
              0 + cost))
      else if py_in ''Vanity'' tname then
        (let cost = get_material_cost P ''vanity_basic'' (Finite 1) cty in
         Inr ([\<lparr>name = ''vanity_basic'', qty = Finite 1, unit_cost = cost, total = cost\<rparr>],
              0 + cost))
      else if py_in ''Demolition'' tname then
        (let cost = get_material_cost P ''disposal_fee'' (Finite 1) cty in
         Inr ([\<lparr>name = ''disposal_fee'', qty = Finite 1, unit_cost = cost, total = cost\<rparr>],
              0 + cost))
      else Inr ([], 0))"

definition apply_margin_protection :: "real \<Rightarrow> real \<Rightarrow> real \<Rightarrow> real \<times> real" where
  "apply_margin_protection base_price default_margin min_margin =
     (let margin_pct_v = max default_margin min_margin;
          margin_amount = base_price * margin_pct_v
      in (margin_pct_v, margin_amount))"

text \<open>Truthiness of \<^verbatim>\<open>None\<close>, of a float and of a string.\<close>

definition truthy_float :: "pyfloat option \<Rightarrow> bool" where
  "truthy_float v =
     (case v of None \<Rightarrow> False | Some (Finite a) \<Rightarrow> a \<noteq> 0 | Some Infinity \<Rightarrow> True)"

definition truthy_str :: "string option \<Rightarrow> bool" where
  "truthy_str v = (case v of None \<Rightarrow> False | Some s \<Rightarrow> s \<noteq> [])"

definition compute_confidence :: "task_intent \<Rightarrow> string option \<Rightarrow> real" where
  "compute_confidence task cty =
     (let s0 = 0;
          s1 = s0 + (if task_name task \<noteq> [] then 4 / 10 else 0);
          s2 = s1 + (if truthy_float (task_get_area task) \<or> area_m2 task = None
                     then 2 / 10 else 0);
          s3 = s2 + (if truthy_str cty then 2 / 10 else 1 / 10);
          s4 = s3 + 2 / 10
      in min s4 1)"

text \<open>The local variables of one pass through the loop of \<^verbatim>\<open>build_quote\<close>.\<close>

record task_locals =
  l_hours :: real
  l_labor_cost :: real
  l_materials :: "material_line list"
  l_mat_cost :: real
  l_margin_pct :: real
  l_price_ex_vat :: real
  l_vat_rate :: real
  l_vat_amount :: real
  l_total_task_price :: real
  l_confidence :: real

definition price_task :: "providers \<Rightarrow> string \<Rightarrow> task_intent \<Rightarrow> error + task_locals" where
  "price_task P cty task =
     (let tname = task_name task;
          h = estimate_hours P tname (task_get_area task);
          labor_cost = compute_labor_cost P h cty
      in case materials_for P cty task of
           Inl e \<Rightarrow> Inl e
         | Inr (mats, mat_cost) \<Rightarrow>
             let base_price = labor_cost + mat_cost;
                 (m_pct, margin_amount) = apply_margin_protection base_price (12 / 100) (5 / 100);
                 pev = base_price + margin_amount;
                 vr = get_vat_rate P tname cty;
                 va = pev * vr;
                 total_task_price = pev + va;
                 conf = compute_confidence task (Some cty)
             in Inr \<lparr>l_hours = h, l_labor_cost = labor_cost, l_materials = mats,
                     l_mat_cost = mat_cost, l_margin_pct = m_pct, l_price_ex_vat = pev,
                     l_vat_rate = vr, l_vat_amount = va,
                     l_total_task_price = total_task_price, l_confidence = conf\<rparr>)"

section \<open>The quote\<close>

record labor_rec =
  hours :: real
  hourly_rate :: real
  cost :: real

record priced_task =
  pt_task_name :: string
  pt_area_m2 :: "pyfloat option"
  labor :: labor_rec
  materials :: "material_line list"
  estimated_duration_hours :: real
  vat_rate :: real
  margin_pct :: real
  price_ex_vat :: real
  vat_amount :: real
  total_price :: real
  confidence :: real

record zone_rec =
  zone_name :: string
  zone_tasks :: "priced_task list"

record client_rec =
  raw_transcript :: string
  location :: string

record summary_rec =
  total_labor_cost :: real
  total_material_cost :: real
  total_vat :: real
  summary_total_price :: real
  summary_duration_hours :: real
  confidence_score :: real
  suspicious_input :: bool

record quote =
  system :: string
  quote_id :: string
  client :: client_rec
  currency :: string
  zones :: "zone_rec list"
  summary :: summary_rec

text \<open>The accumulators of the loop.\<close>

record loop_state =
  tasks_out :: "priced_task list"
  acc_labor_cost :: real
  acc_material_cost :: real
  acc_vat :: real
  acc_price :: real
  acc_hours :: real
  weighted_conf_sum :: real
  weighted_cost_sum :: real

definition init_state :: loop_state where
  "init_state =
     \<lparr>tasks_out = [], acc_labor_cost = 0, acc_material_cost = 0, acc_vat = 0, acc_price = 0,
      acc_hours = 0, weighted_conf_sum = 0, weighted_cost_sum = 0\<rparr>"

text \<open>The record appended to \<^verbatim>\<open>tasks_out\<close>.\<close>

definition task_record :: "real \<Rightarrow> task_intent \<Rightarrow> task_locals \<Rightarrow> priced_task" where
  "task_record hourly task l =
     \<lparr>pt_task_name = task_name task,
      pt_area_m2 = task_get_area task,
      labor = \<lparr>hours = l_hours l, hourly_rate = hourly, cost = l_labor_cost l\<rparr>,
      materials = l_materials l,
      estimated_duration_hours = l_hours l,
      vat_rate = l_vat_rate l,
      margin_pct = l_margin_pct l,
      price_ex_vat = py_round (l_price_ex_vat l) 2,
      vat_amount = py_round (l_vat_amount l) 2,
      total_price = py_round (l_total_task_price l) 2,
      confidence = py_round (l_confidence l) 2\<rparr>"

definition loop_body ::
  "providers \<Rightarrow> string \<Rightarrow> real \<Rightarrow> loop_state \<Rightarrow> task_intent \<Rightarrow> error + loop_state" where
  "loop_body P cty hourly st task =
     (case price_task P cty task of
        Inl e \<Rightarrow> Inl e
      | Inr l \<Rightarrow>
          Inr \<lparr>tasks_out = tasks_out st @ [task_record hourly task l],
               acc_labor_cost = acc_labor_cost st + l_labor_cost l,
               acc_material_cost = acc_material_cost st + l_mat_cost l,
               acc_vat = acc_vat st + l_vat_amount l,
               acc_price = acc_price st + l_total_task_price l,
               acc_hours = acc_hours st + l_hours l,
               weighted_conf_sum = weighted_conf_sum st + l_confidence l * l_total_task_price l,
               weighted_cost_sum = weighted_cost_sum st + l_total_task_price l\<rparr>)"

fun run_loop ::
  "providers \<Rightarrow> string \<Rightarrow> real \<Rightarrow> loop_state \<Rightarrow> task_intent list \<Rightarrow> error + loop_state" where
  "run_loop P cty hourly st [] = Inr st"
| "run_loop P cty hourly st (task # rest) =
     (case loop_body P cty hourly st task of
        Inl e \<Rightarrow> Inl e
      | Inr st' \<Rightarrow> run_loop P cty hourly st' rest)"

text \<open>\<^verbatim>\<open>parsed["city"] or "Generic"\<close>.\<close>

definition city_or_generic :: "string option \<Rightarrow> string" where
  "city_or_generic c = (case c of None \<Rightarrow> ''Generic'' | Some s \<Rightarrow> if s \<noteq> [] then s else ''Generic'')"

definition global_conf_of :: "loop_state \<Rightarrow> real" where
  "global_conf_of st =
     (if weighted_cost_sum st \<noteq> 0 then weighted_conf_sum st / weighted_cost_sum st else 0)"

definition build_quote :: "providers \<Rightarrow> nat \<Rightarrow> string \<Rightarrow> error + quote" where
  "build_quote P u transcript_text =
     (let parsed = parse_transcript transcript_text;
          cty = city_or_generic (city parsed);
          zn = zone parsed;
          hourly = hourly_rate_of P cty
      in case run_loop P cty hourly init_state (tasks parsed) of
           Inl e \<Rightarrow> Inl e
         | Inr st \<Rightarrow>
             let global_conf = global_conf_of st in
             Inr \<lparr>system = ''T'',
                  quote_id = generate_quote_id u,
                  client = \<lparr>raw_transcript = transcript_text, location = cty\<rparr>,
                  currency = ''EUR'',
                  zones = [\<lparr>zone_name = zn, zone_tasks = tasks_out st\<rparr>],
                  summary =
                    \<lparr>total_labor_cost = py_round (acc_labor_cost st) 2,
                     total_material_cost = py_round (acc_material_cost st) 2,
                     total_vat = py_round (acc_vat st) 2,
                     summary_total_price = py_round (acc_price st) 2,
                     summary_duration_hours = py_round (acc_hours st) 2,
                     confidence_score = py_round global_conf 2,
                     suspicious_input = (global_conf < 6 / 10)\<rparr>\<rparr>)"

text \<open>All task records of a quote, zone after zone.\<close>

definition quote_tasks :: "quote \<Rightarrow> priced_task list" where
  "quote_tasks q = concat (map zone_tasks (zones q))"

text \<open>The fixed catalog of task names: the names of the trigger table.\<close>

definition task_catalog :: "string list" where
  "task_catalog = map (\<lambda>(ps, n, a). n) trigger_table"

text \<open>
  The specification's formula for the quote-level confidence, over the values the loop
  computed for each task: the average of the confidences weighted by the total prices,
  and 0 when the weights sum to zero.
\<close>

definition weighted_confidence :: "task_locals list \<Rightarrow> real" where
  "weighted_confidence ls =
     (if sum_list (map l_total_task_price ls) = 0 then 0
      else sum_list (map (\<lambda>l. l_confidence l * l_total_task_price l) ls)
             / sum_list (map l_total_task_price ls))"

section \<open>A sample run\<close>

text \<open>
  The quote of the sample providers for a two-task transcript, and the values the loop
  computes for its two tasks. The tiling task gets no material line.
\<close>

definition sample_text :: string where
  "sample_text = ''Tiles, 4 m2, new toilet, Paris''"

definition sample_locals :: "task_locals list" where
  "sample_locals =
     [\<lparr>l_hours = 15 / 4, l_labor_cost = 375 / 2, l_materials = [], l_mat_cost = 0,
       l_margin_pct = 12 / 100, l_price_ex_vat = 210, l_vat_rate = 1 / 5, l_vat_amount = 42,
       l_total_task_price = 252, l_confidence = 1\<rparr>,
      \<lparr>l_hours = 2, l_labor_cost = 100,
       l_materials = [\<lparr>name = ''toilet_standard'', qty = Finite 1, unit_cost = 125, total = 125\<rparr>],
       l_mat_cost = 125, l_margin_pct = 12 / 100, l_price_ex_vat = 252, l_vat_rate = 1 / 5,
       l_vat_amount = 252 / 5, l_total_task_price = 1512 / 5, l_confidence = 1\<rparr>]"

definition sample_toilet :: priced_task where
  "sample_toilet =
     \<lparr>pt_task_name = ''Replace Toilet'', pt_area_m2 = None,
      labor = \<lparr>hours = 2, hourly_rate = 50, cost = 100\<rparr>,
      materials = [\<lparr>name = ''toilet_standard'', qty = Finite 1, unit_cost = 125, total = 125\<rparr>],
      estimated_duration_hours = 2, vat_rate = 1 / 5, margin_pct = 12 / 100,
      price_ex_vat = 252, vat_amount = 252 / 5, total_price = 1512 / 5, confidence = 1\<rparr>"

definition sample_quote :: quote where
  "sample_quote =
     \<lparr>system = ''T'', quote_id = ''donizo-00000000'',
      client = \<lparr>raw_transcript = sample_text, location = ''Paris''\<rparr>,
      currency = ''EUR'',
      zones =
        [\<lparr>zone_name = ''general'',
          zone_tasks =
            [\<lparr>pt_task_name = ''Floor Tiling (ceramic)'', pt_area_m2 = Some (Finite 4),
              labor = \<lparr>hours = 15 / 4, hourly_rate = 50, cost = 375 / 2\<rparr>,
              materials = [], estimated_duration_hours = 15 / 4, vat_rate = 1 / 5,
              margin_pct = 12 / 100, price_ex_vat = 210, vat_amount = 42, total_price = 252,
              confidence = 1\<rparr>,
             sample_toilet]\<rparr>],
      summary =
        \<lparr>total_labor_cost = 575 / 2, total_material_cost = 125, total_vat = 462 / 5,
         summary_total_price = 2772 / 5, summary_duration_hours = 23 / 4,
         confidence_score = 1, suspicious_input = False\<rparr>\<rparr>"

section \<open>Substrings and the parser\<close>

lemma py_in_sublist: "py_in p s = sublist p s"
  by (induction s) (auto simp: sublist_Cons_right)

lemma py_in_mono: "sublist q p \<Longrightarrow> py_in p s \<Longrightarrow> py_in q s"
  unfolding py_in_sublist by (rule sublist_order.order.trans)

lemma tile_in_demolition_phrases:
  "py_in ''remove old tile'' s \<or> py_in ''remove the old tiles'' s \<Longrightarrow> py_in ''tile'' s"
proof -
  have a: "sublist ''tile'' ''remove old tile''"
    unfolding py_in_sublist [symmetric] by simp
  have b: "sublist ''tile'' ''remove the old tiles''"
    unfolding py_in_sublist [symmetric] by simp
  assume "py_in ''remove old tile'' s \<or> py_in ''remove the old tiles'' s"
  then show ?thesis using py_in_mono [OF a] py_in_mono [OF b] by blast
qed

lemma search_city_None:
  "search_city s = None \<longleftrightarrow>
     \<not> py_in ''marseille'' s \<and> \<not> py_in ''paris'' s \<and> \<not> py_in ''lyon'' s"
  by (induction s) auto

lemma search_city_Some:
  "search_city s = Some c \<Longrightarrow> c \<in> {''marseille'', ''paris'', ''lyon''}"
  by (induction s) (auto split: if_splits)


lemma if_snoc: "(if c then xs @ [x] else xs) = xs @ (if c then [x] else [])"
  by simp

lemma filter_Cons_app: "filter Q (x # xs) = (if Q x then [x] else []) @ filter Q xs"
  by simp

lemma map_if_single: "map f (if c then [x] else []) = (if c then [f x] else [])"
  by simp

lemma parse_tasks_append:
  "tasks (parse_transcript text) =
     (if py_in ''tile'' (lower text)
      then [\<lparr>task_name = ''Floor Tiling (ceramic)'',
             area_m2 = Some (parsed_area_m2 (parse_transcript text))\<rparr>] else []) @
     (if py_in ''paint'' (lower text) \<or> py_in ''repaint'' (lower text)
      then [\<lparr>task_name = ''Repaint Walls'', area_m2 = None\<rparr>] else []) @
     (if py_in ''plumb'' (lower text)
      then [\<lparr>task_name = ''Shower Plumbing (redo)'', area_m2 = None\<rparr>] else []) @
     (if py_in ''toilet'' (lower text)
      then [\<lparr>task_name = ''Replace Toilet'', area_m2 = None\<rparr>] else []) @
     (if py_in ''vanity'' (lower text)
      then [\<lparr>task_name = ''Install Vanity'', area_m2 = None\<rparr>] else []) @
     (if py_in ''remove old tile'' (lower text) \<or> py_in ''remove the old tiles'' (lower text)
      then [\<lparr>task_name = ''Demolition & Disposal'', area_m2 = None\<rparr>] else [])"
  by (simp add: parse_transcript_def Let_def if_snoc split del: if_split cong: if_cong)

lemma spec_tasks_append:
  "spec_tasks low area =
     (if py_in ''tile'' low
      then [\<lparr>task_name = ''Floor Tiling (ceramic)'', area_m2 = Some area\<rparr>] else []) @
     (if py_in ''paint'' low \<or> py_in ''repaint'' low
      then [\<lparr>task_name = ''Repaint Walls'', area_m2 = None\<rparr>] else []) @
     (if py_in ''plumb'' low
      then [\<lparr>task_name = ''Shower Plumbing (redo)'', area_m2 = None\<rparr>] else []) @
     (if py_in ''toilet'' low
      then [\<lparr>task_name = ''Replace Toilet'', area_m2 = None\<rparr>] else []) @
     (if py_in ''vanity'' low
      then [\<lparr>task_name = ''Install Vanity'', area_m2 = None\<rparr>] else []) @
     (if py_in ''remove old tile'' low \<or> py_in ''remove the old tiles'' low
      then [\<lparr>task_name = ''Demolition & Disposal'', area_m2 = None\<rparr>] else [])"
  by (simp add: spec_tasks_def trigger_table_def filter_Cons_app map_if_single
           del: filter.simps split del: if_split cong: if_cong)

lemma parse_tasks_refine:
  "tasks (parse_transcript text) =
     spec_tasks (lower text) (parsed_area_m2 (parse_transcript text))"
  unfolding parse_tasks_append spec_tasks_append ..

lemma spec_task_names: "t \<in> set (spec_tasks low area) \<Longrightarrow> task_name t \<in> set task_catalog"
  unfolding spec_tasks_def task_catalog_def by force

lemma parsed_task_names:
  "t \<in> set (tasks (parse_transcript text)) \<Longrightarrow> task_name t \<in> set task_catalog"
  unfolding parse_tasks_refine by (rule spec_task_names)

section \<open>Rounding\<close>


lemma py_round_err: "\<bar>py_round x n - x\<bar> \<le> 1 / (2 * 10 ^ n)"
proof -
  define y where "y = x * 10 ^ n"
  define f where "f = \<lfloor>y\<rfloor>"
  define r :: int where
    "r = (if y - of_int f < 1 / 2 then f else if 1 / 2 < y - of_int f then f + 1
          else if even f then f else f + 1)"
  have fy: "of_int f \<le> y" "y < of_int f + 1"
    unfolding f_def by linarith+
  have half: "\<bar>of_int r - y\<bar> \<le> 1 / 2"
    using fy unfolding r_def by (auto simp: abs_le_iff)
  have eq: "py_round x n - x = (of_int r - y) / 10 ^ n"
    unfolding py_round_def Let_def r_def f_def y_def by (simp add: field_simps)
  have "\<bar>(of_int r - y) / 10 ^ n\<bar> = \<bar>of_int r - y\<bar> / 10 ^ n"
    by simp
  also have "\<dots> \<le> (1 / 2) / 10 ^ n"
    using half by (rule divide_right_mono) simp
  finally show ?thesis unfolding eq by simp
qed

lemma py_round_err2: "\<bar>py_round x 2 - x\<bar> \<le> 1 / 200"
  using py_round_err [of x 2] by simp


lemma py_round_zero: "py_round 0 n = 0"
  by (simp add: py_round_def)



section \<open>The loop\<close>

lemma catalog_no_tile: "n \<in> set task_catalog \<Longrightarrow> \<not> py_in ''Tile'' n"
  by (auto simp: task_catalog_def trigger_table_def)

lemma materials_for_no_tile:
  "\<not> py_in ''Tile'' (task_name t) \<Longrightarrow> \<exists>r. materials_for P c t = Inr r"
  by (simp add: materials_for_def Let_def)

lemma materials_for_total_sum:
  "materials_for P c t = Inr (mats, mc) \<Longrightarrow> mc = sum_list (map total mats)"
  by (auto simp: materials_for_def Let_def split: if_splits option.splits sum.splits)

lemma materials_for_nonneg:
  "nonneg_providers P \<Longrightarrow> \<not> py_in ''Tile'' (task_name t) \<Longrightarrow>
   materials_for P c t = Inr (mats, mc) \<Longrightarrow> 0 \<le> mc"
  by (auto simp: materials_for_def Let_def nonneg_providers_def split: if_splits)

lemma price_task_no_tile:
  "\<not> py_in ''Tile'' (task_name t) \<Longrightarrow> \<exists>l. price_task P c t = Inr l"
  using materials_for_no_tile [of t P c]
  by (auto simp: price_task_def Let_def apply_margin_protection_def split: prod.splits)

lemma price_task_fields:
  assumes "price_task P c t = Inr l"
  shows "l_price_ex_vat l = (l_labor_cost l + sum_list (map total (l_materials l))) * (1 + l_margin_pct l)"
    and "l_total_task_price l = l_price_ex_vat l + l_vat_amount l"
    and "l_margin_pct l = 12 / 100"
    and "l_vat_amount l = l_price_ex_vat l * l_vat_rate l"
    and "l_confidence l = compute_confidence t (Some c)"
    and "l_vat_rate l = get_vat_rate P (task_name t) c"
    and "l_labor_cost l = compute_labor_cost P (l_hours l) c"
    and "materials_for P c t = Inr (l_materials l, l_mat_cost l)"
    and "l_hours l = estimate_hours P (task_name t) (task_get_area t)"
  using assms materials_for_total_sum [of P c t]
  by (auto simp: price_task_def Let_def apply_margin_protection_def field_simps
           split: sum.splits prod.splits)

lemma run_loop_Inr:
  "list_all2 (\<lambda>t l. price_task P c t = Inr l) ts ls \<Longrightarrow>
   run_loop P c h st ts =
     Inr \<lparr>tasks_out = tasks_out st @ map2 (task_record h) ts ls,
          acc_labor_cost = acc_labor_cost st + sum_list (map l_labor_cost ls),
          acc_material_cost = acc_material_cost st + sum_list (map l_mat_cost ls),
          acc_vat = acc_vat st + sum_list (map l_vat_amount ls),
          acc_price = acc_price st + sum_list (map l_total_task_price ls),
          acc_hours = acc_hours st + sum_list (map l_hours ls),
          weighted_conf_sum = weighted_conf_sum st
             + sum_list (map (\<lambda>l. l_confidence l * l_total_task_price l) ls),
          weighted_cost_sum = weighted_cost_sum st + sum_list (map l_total_task_price ls)\<rparr>"
proof (induction ts ls arbitrary: st rule: list_all2_induct)
  case Nil
  show ?case by simp
next
  case (Cons t l ts ls)
  show ?case
    by (simp add: Cons.hyps(1) loop_body_def Cons.IH add.assoc)
qed

lemma price_all_exists:
  "\<forall>t \<in> set ts. \<not> py_in ''Tile'' (task_name t) \<Longrightarrow>
   \<exists>ls. list_all2 (\<lambda>t l. price_task P c t = Inr l) ts ls"
proof (induction ts)
  case Nil
  show ?case by simp
next
  case (Cons t ts)
  then obtain ls where ls: "list_all2 (\<lambda>t l. price_task P c t = Inr l) ts ls" by auto
  from Cons.prems obtain l where "price_task P c t = Inr l"
    using price_task_no_tile [of t P c] by auto
  with ls have "list_all2 (\<lambda>t l. price_task P c t = Inr l) (t # ts) (l # ls)" by simp
  then show ?case by blast
qed

section \<open>The quote as a function of the priced tasks\<close>

lemmas eval_defs =
  build_quote_def parse_transcript_def lower_def lower_char_def upper_char_def capitalize_def
  Let_def init_state_def loop_body_def price_task_def materials_for_def city_or_generic_def
  apply_margin_protection_def task_record_def compute_confidence_def task_get_area_def
  task_get_area_default_def truthy_float_def truthy_str_def global_conf_of_def
  match_area_at_def digit_at_def digit_in_block_def decimal_blocks_def space_at_def
  space_encodings_def m2_here_def float_of_digits_def round_to_double_def
  generate_quote_id_def uuid_hex_def hex_digit_def upt_rec quote_tasks_def

lemma build_quote_Inr:
  assumes "list_all2 (\<lambda>t l. price_task P (city_or_generic (city (parse_transcript text))) t = Inr l)
             (tasks (parse_transcript text)) ls"
  shows "build_quote P u text =
     Inr \<lparr>system = ''T'',
          quote_id = generate_quote_id u,
          client = \<lparr>raw_transcript = text,
                    location = city_or_generic (city (parse_transcript text))\<rparr>,
          currency = ''EUR'',
          zones = [\<lparr>zone_name = zone (parse_transcript text),
                    zone_tasks =
                      map2 (task_record (hourly_rate_of P
                              (city_or_generic (city (parse_transcript text)))))
                        (tasks (parse_transcript text)) ls\<rparr>],
          summary =
            \<lparr>total_labor_cost = py_round (sum_list (map l_labor_cost ls)) 2,
             total_material_cost = py_round (sum_list (map l_mat_cost ls)) 2,
             total_vat = py_round (sum_list (map l_vat_amount ls)) 2,
             summary_total_price = py_round (sum_list (map l_total_task_price ls)) 2,
             summary_duration_hours = py_round (sum_list (map l_hours ls)) 2,
             confidence_score = py_round (weighted_confidence ls) 2,
             suspicious_input = (weighted_confidence ls < 6 / 10)\<rparr>\<rparr>"
  unfolding build_quote_def Let_def run_loop_Inr [OF assms]
  by (simp add: init_state_def global_conf_of_def weighted_confidence_def)

lemma parsed_tasks_priced:
  "\<exists>ls. list_all2 (\<lambda>t l. price_task P c t = Inr l) (tasks (parse_transcript text)) ls"
  by (rule price_all_exists) (blast dest: parsed_task_names catalog_no_tile)

lemma build_quote_returns: "\<exists>q. build_quote P u text = Inr q"
  using parsed_tasks_priced build_quote_Inr by blast


lemma tile_branch_None_raises:
  "py_in ''Tile'' (task_name t) \<Longrightarrow> area_m2 t = Some None \<Longrightarrow> materials_for P c t = Inl TypeError"
  by (simp add: materials_for_def task_get_area_default_def)

lemma tile_branch_zero_raises:
  "py_in ''Tile'' (task_name t) \<Longrightarrow> area_m2 t = Some (Some (Finite 0)) \<Longrightarrow>
   materials_for P c t = Inl ZeroDivisionError"
  by (simp add: materials_for_def task_get_area_default_def)

lemma sample_priced:
  "list_all2 (\<lambda>t l. price_task sample_providers
       (city_or_generic (city (parse_transcript sample_text))) t = Inr l)
     (tasks (parse_transcript sample_text)) sample_locals"
  by (simp add: eval_defs sample_text_def sample_locals_def sample_providers_def)

lemma sample_run: "build_quote sample_providers 0 sample_text = Inr sample_quote"
  by (simp add: eval_defs py_round_def sample_text_def sample_quote_def sample_toilet_def
        sample_providers_def)

section \<open>The claims\<close>

text \<open>
  C1. The claim: a tiling task whose area is absent from the transcript gets its
  ceramic-tile line with the fallback quantity 4, and nothing raises. The code does not
  raise, but for the transcript "lay new tiles" the tiling task of the quote has the area
  \<open>None\<close> and no material line at all: the test \<^verbatim>\<open>"Tile" in tname\<close> fails on
  "Floor Tiling (ceramic)", so the branch holding the fallback is never entered
  (and \<open>tile_branch_None_raises\<close>: were it entered, the key is present with the value
  \<^verbatim>\<open>None\<close>, the fallback 4 is not taken and the division raises TypeError).
\<close>

theorem tiling_without_area_has_no_tile_line:
  "\<exists>q. build_quote P u ''lay new tiles'' = Inr q \<and>
       map pt_task_name (quote_tasks q) = [''Floor Tiling (ceramic)''] \<and>
       map pt_area_m2 (quote_tasks q) = [None] \<and>
       map materials (quote_tasks q) = [[]]"
  by (simp add: eval_defs)


lemma city_or_generic_nonempty: "city_or_generic c \<noteq> []"
  by (simp add: city_or_generic_def split: option.splits)

lemma catalog_nonempty_names: "n \<in> set task_catalog \<Longrightarrow> n \<noteq> []"
  by (auto simp: task_catalog_def trigger_table_def)

lemma confidence_bounds:
  "task_name t \<noteq> [] \<Longrightarrow> c \<noteq> [] \<Longrightarrow>
   8 / 10 \<le> compute_confidence t (Some c) \<and> compute_confidence t (Some c) \<le> 1"
  by (simp add: compute_confidence_def Let_def truthy_str_def)

lemma float_of_digits_nonneg: "float_nonneg (float_of_digits ds)"
  by (simp add: float_of_digits_def round_to_double_def Let_def)

lemma parsed_task_area:
  "t \<in> set (tasks (parse_transcript text)) \<Longrightarrow>
   \<forall>a. task_get_area t = Some a \<longrightarrow> float_nonneg a"
  unfolding parse_tasks_append
  by (auto simp: task_get_area_def parse_transcript_def Let_def float_of_digits_nonneg
           split: if_splits)

lemma price_task_nonneg:
  assumes "nonneg_providers P" and "price_task P c t = Inr l"
    and "\<not> py_in ''Tile'' (task_name t)"
    and "\<forall>a. task_get_area t = Some a \<longrightarrow> float_nonneg a"
  shows "0 \<le> l_total_task_price l"
proof -
  note f = price_task_fields [OF assms(2)]
  have m: "0 \<le> l_mat_cost l"
    using materials_for_nonneg [OF assms(1) assms(3) f(8)] .
  have mm: "l_mat_cost l = sum_list (map total (l_materials l))"
    using materials_for_total_sum [OF f(8)] .
  have h: "0 \<le> l_hours l"
    using assms(1) assms(4) unfolding f(9) nonneg_providers_def
    by (cases "task_get_area t") auto
  have lc: "0 \<le> l_labor_cost l"
    using assms(1) h unfolding f(7) nonneg_providers_def by blast
  have vr: "0 \<le> l_vat_rate l"
    using assms(1) unfolding f(6) nonneg_providers_def by blast
  have pev: "0 \<le> l_price_ex_vat l"
    unfolding f(1) f(3) using m lc mm by simp
  have "0 \<le> l_vat_amount l"
    unfolding f(4) using pev vr by simp
  with pev show ?thesis unfolding f(2) by simp
qed

lemma weighted_sums_bounds:
  "\<forall>l \<in> set ls. 8 / 10 \<le> l_confidence l \<and> l_confidence l \<le> 1 \<and> 0 \<le> l_total_task_price l \<Longrightarrow>
   0 \<le> sum_list (map l_total_task_price ls) \<and>
   8 / 10 * sum_list (map l_total_task_price ls)
     \<le> sum_list (map (\<lambda>l. l_confidence l * l_total_task_price l) ls) \<and>
   sum_list (map (\<lambda>l. l_confidence l * l_total_task_price l) ls)
     \<le> sum_list (map l_total_task_price ls)"
proof (induction ls)
  case Nil
  show ?case by simp
next
  case (Cons l ls)
  then have c: "8 / 10 \<le> l_confidence l" "l_confidence l \<le> 1" and p: "0 \<le> l_total_task_price l"
    by simp_all
  have lo: "8 / 10 * l_total_task_price l \<le> l_confidence l * l_total_task_price l"
    using c(1) p by (rule mult_right_mono)
  have hi: "l_confidence l * l_total_task_price l \<le> 1 * l_total_task_price l"
    using c(2) p by (rule mult_right_mono)
  from Cons have ih: "0 \<le> sum_list (map l_total_task_price ls)"
     "8 / 10 * sum_list (map l_total_task_price ls)
        \<le> sum_list (map (\<lambda>l. l_confidence l * l_total_task_price l) ls)"
     "sum_list (map (\<lambda>l. l_confidence l * l_total_task_price l) ls)
        \<le> sum_list (map l_total_task_price ls)"
    by simp_all
  show ?case using lo hi ih p by (simp add: algebra_simps)
qed

lemma weighted_confidence_range:
  assumes "\<forall>l \<in> set ls. 8 / 10 \<le> l_confidence l \<and> l_confidence l \<le> 1 \<and> 0 \<le> l_total_task_price l"
  shows "weighted_confidence ls = 0 \<or> 8 / 10 \<le> weighted_confidence ls"
proof (cases "sum_list (map l_total_task_price ls) = 0")
  case True
  then show ?thesis by (simp add: weighted_confidence_def)
next
  case False
  note b = weighted_sums_bounds [OF assms]
  from False b have pos: "0 < sum_list (map l_total_task_price ls)" by simp
  have "8 / 10 \<le> sum_list (map (\<lambda>l. l_confidence l * l_total_task_price l) ls)
                  / sum_list (map l_total_task_price ls)"
    using b pos by (simp add: pos_le_divide_eq)
  then show ?thesis using False by (simp add: weighted_confidence_def)
qed

lemma parsed_locals_bounds:
  assumes "nonneg_providers P"
    and "list_all2 (\<lambda>t l. price_task P (city_or_generic cy) t = Inr l)
           (tasks (parse_transcript text)) ls"
  shows "\<forall>l \<in> set ls. 8 / 10 \<le> l_confidence l \<and> l_confidence l \<le> 1 \<and> 0 \<le> l_total_task_price l"
proof
  fix l assume "l \<in> set ls"
  then obtain i where i: "i < length ls" and l: "l = ls ! i"
    by (auto simp: in_set_conv_nth)
  define t where "t = tasks (parse_transcript text) ! i"
  have len: "length (tasks (parse_transcript text)) = length ls"
    using assms(2) by (rule list_all2_lengthD)
  have t: "t \<in> set (tasks (parse_transcript text))"
    unfolding t_def using i len by simp
  have p: "price_task P (city_or_generic cy) t = Inr l"
    unfolding t_def l using assms(2) i by (rule list_all2_nthD2)
  have n: "task_name t \<noteq> []"
    using parsed_task_names [OF t] by (rule catalog_nonempty_names)
  have nt: "\<not> py_in ''Tile'' (task_name t)"
    using parsed_task_names [OF t] by (rule catalog_no_tile)
  show "8 / 10 \<le> l_confidence l \<and> l_confidence l \<le> 1 \<and> 0 \<le> l_total_task_price l"
    using confidence_bounds [OF n city_or_generic_nonempty, of cy]
      price_task_nonneg [OF assms(1) p nt parsed_task_area [OF t]] price_task_fields(5) [OF p]
    by simp
qed

text \<open>
  C3. In every produced quote, \<open>suspicious_input\<close> is true exactly when
  \<open>confidence_score\<close> is below 0.6, for providers whose costs, hours and VAT rates
  are not negative: the confidence of every parsed task is at least 0.8, so the weighted
  average is 0 (no weight) or at least 0.8, and rounding cannot cross the threshold.
\<close>

theorem suspicious_iff_low_confidence:
  assumes "nonneg_providers P" and "build_quote P u text = Inr q"
  shows "suspicious_input (summary q) \<longleftrightarrow> confidence_score (summary q) < 6 / 10"
proof -
  obtain ls where ls: "list_all2 (\<lambda>t l. price_task P
        (city_or_generic (city (parse_transcript text))) t = Inr l)
      (tasks (parse_transcript text)) ls"
    using parsed_tasks_priced by blast
  define g where "g = weighted_confidence ls"
  have s: "suspicious_input (summary q) = (g < 6 / 10)"
    and c: "confidence_score (summary q) = py_round g 2"
    using assms(2) unfolding build_quote_Inr [OF ls] g_def by auto
  have "g = 0 \<or> 8 / 10 \<le> g"
    unfolding g_def
    by (rule weighted_confidence_range) (rule parsed_locals_bounds [OF assms(1) ls])
  then show ?thesis
  proof
    assume "g = 0"
    then show ?thesis by (simp add: s c py_round_zero)
  next
    assume "8 / 10 \<le> g"
    moreover have "\<bar>py_round g 2 - g\<bar> \<le> 1 / 200" by (rule py_round_err2)
    ultimately have "\<not> g < 6 / 10" and "\<not> py_round g 2 < 6 / 10" by linarith+
    then show ?thesis by (simp add: s c)
  qed
qed

theorem suspicious_iff_low_confidence_witness:
  "nonneg_providers sample_providers \<and>
   build_quote sample_providers 0 sample_text = Inr sample_quote \<and>
   (suspicious_input (summary sample_quote) \<longleftrightarrow> confidence_score (summary sample_quote) < 6 / 10)"
proof -
  have n: "nonneg_providers sample_providers"
    by (simp add: nonneg_providers_def sample_providers_def split: pyfloat.splits)
  from suspicious_iff_low_confidence [OF n sample_run] n sample_run show ?thesis
    by blast
qed



text \<open>
  C5. The global confidence computed by the loop is the average of the task confidences
  weighted by the (unrounded) task totals, and 0 when the totals sum to zero; the
  \<open>confidence_score\<close> of the quote is this value rounded to two decimals.
\<close>

theorem global_confidence_weighted_average:
  assumes "list_all2 (\<lambda>t l. price_task P (city_or_generic (city (parse_transcript text))) t = Inr l)
             (tasks (parse_transcript text)) ls"
  shows "\<exists>st q.
     run_loop P (city_or_generic (city (parse_transcript text)))
       (hourly_rate_of P (city_or_generic (city (parse_transcript text)))) init_state
       (tasks (parse_transcript text)) = Inr st \<and>
     global_conf_of st =
       (if sum_list (map l_total_task_price ls) = 0 then 0
        else sum_list (map (\<lambda>l. l_confidence l * l_total_task_price l) ls)
               / sum_list (map l_total_task_price ls)) \<and>
     build_quote P u text = Inr q \<and>
     confidence_score (summary q) = py_round (global_conf_of st) 2"
  unfolding build_quote_def Let_def run_loop_Inr [OF assms]
  by (simp add: init_state_def global_conf_of_def)

theorem global_confidence_weighted_average_witness:
  "list_all2 (\<lambda>t l. price_task sample_providers
       (city_or_generic (city (parse_transcript sample_text))) t = Inr l)
     (tasks (parse_transcript sample_text)) sample_locals \<and>
   (\<exists>st q.
     run_loop sample_providers (city_or_generic (city (parse_transcript sample_text)))
       (hourly_rate_of sample_providers (city_or_generic (city (parse_transcript sample_text))))
       init_state (tasks (parse_transcript sample_text)) = Inr st \<and>
     global_conf_of st = 1 \<and>
     build_quote sample_providers 0 sample_text = Inr q \<and>
     confidence_score (summary q) = py_round (global_conf_of st) 2)"
proof -
  have v: "(if sum_list (map l_total_task_price sample_locals) = 0 then 0
        else sum_list (map (\<lambda>l. l_confidence l * l_total_task_price l) sample_locals)
               / sum_list (map l_total_task_price sample_locals)) = 1"
    by (simp add: sample_locals_def)
  from global_confidence_weighted_average [OF sample_priced, of 0] sample_priced
  show ?thesis unfolding v by blast
qed

lemma parse_area_unicode:
  "parsed_area_m2 (parse_transcript (''tiles 4'' @ [CHR 0xC2, CHR 0xA0] @ ''m2''))
     = Some (Finite 4)"
  "parsed_area_m2 (parse_transcript (''tiles '' @ [CHR 0xD9, CHR 0xA4] @ '' M''
       @ [CHR 0xC2, CHR 0xB2])) = Some (Finite 4)"
  by (simp_all add: eval_defs)

text \<open>
  C4. \<open>parse_transcript\<close> is a total function of the text (none of its operations can
  raise: the area is parsed from digits only, and a digit string too long for a double
  gives infinity). Its task list is the one the ordered trigger table gives: one task for
  each trigger with a phrase occurring in the lowered text, in table order, the tiling task
  carrying the parsed area. Zone, budget flag, area and city are the defaults exactly when
  their signal is absent.
\<close>

theorem parse_transcript_by_trigger_table:
  "tasks (parse_transcript text) =
     spec_tasks (lower text) (parsed_area_m2 (parse_transcript text)) \<and>
   zone (parse_transcript text) =
     (if py_in ''bathroom'' (lower text) then ''bathroom'' else ''general'') \<and>
   budget_flag (parse_transcript text) = py_in ''budget'' (lower text) \<and>
   (parsed_area_m2 (parse_transcript text) = None) = (search_area (lower text) = None) \<and>
   (city (parse_transcript text) = None) =
     (\<not> (py_in ''marseille'' (lower text) \<or> py_in ''paris'' (lower text)
         \<or> py_in ''lyon'' (lower text)))"
proof -
  have "tasks (parse_transcript text) =
      spec_tasks (lower text) (parsed_area_m2 (parse_transcript text))"
    unfolding parse_tasks_append spec_tasks_append ..
  moreover have "zone (parse_transcript text) =
      (if py_in ''bathroom'' (lower text) then ''bathroom'' else ''general'')"
    and "budget_flag (parse_transcript text) = py_in ''budget'' (lower text)"
    and "(parsed_area_m2 (parse_transcript text) = None) = (search_area (lower text) = None)"
    by (simp_all add: parse_transcript_def Let_def)
  moreover have "(city (parse_transcript text) = None) =
     (\<not> (py_in ''marseille'' (lower text) \<or> py_in ''paris'' (lower text)
         \<or> py_in ''lyon'' (lower text)))"
    by (simp add: parse_transcript_def Let_def search_city_None)
  ultimately show ?thesis by blast
qed

theorem parse_transcript_by_trigger_table_witness:
  "map task_name (tasks (parse_transcript sample_text)) =
     [''Floor Tiling (ceramic)'', ''Replace Toilet''] \<and>
   spec_tasks (lower sample_text) (Some (Finite 4)) =
     [\<lparr>task_name = ''Floor Tiling (ceramic)'', area_m2 = Some (Some (Finite 4))\<rparr>,
      \<lparr>task_name = ''Replace Toilet'', area_m2 = None\<rparr>] \<and>
   parse_transcript [] =
     \<lparr>zone = ''general'', city = None, budget_flag = False, tasks = [],
      parsed_area_m2 = None\<rparr>"
proof -
  have a: "parsed_area_m2 (parse_transcript sample_text) = Some (Finite 4)"
    by (simp add: eval_defs sample_text_def)
  have b: "spec_tasks (lower sample_text) (Some (Finite 4)) =
     [\<lparr>task_name = ''Floor Tiling (ceramic)'', area_m2 = Some (Some (Finite 4))\<rparr>,
      \<lparr>task_name = ''Replace Toilet'', area_m2 = None\<rparr>]"
    by (simp add: spec_tasks_def trigger_table_def sample_text_def lower_def lower_char_def)
  have c: "parse_transcript [] =
     \<lparr>zone = ''general'', city = None, budget_flag = False, tasks = [],
      parsed_area_m2 = None\<rparr>"
    by (simp add: eval_defs)
  from parse_transcript_by_trigger_table [of sample_text] a b c show ?thesis by simp
qed

text \<open>
  C9. If the parsed task list contains "Demolition & Disposal" it also contains
  "Floor Tiling (ceramic)", at an earlier position: both demolition phrases contain "tile".
\<close>

theorem demolition_implies_earlier_tiling:
  assumes "''Demolition & Disposal'' \<in> set (map task_name (tasks (parse_transcript text)))"
  shows "\<exists>i j. i < j \<and> j < length (tasks (parse_transcript text)) \<and>
           task_name (tasks (parse_transcript text) ! i) = ''Floor Tiling (ceramic)'' \<and>
           task_name (tasks (parse_transcript text) ! j) = ''Demolition & Disposal''"
proof -
  define names where "names = map task_name (tasks (parse_transcript text))"
  define d where "d = (py_in ''remove old tile'' (lower text) \<or>
                        py_in ''remove the old tiles'' (lower text))"
  obtain mid where names: "names =
      (if py_in ''tile'' (lower text) then [''Floor Tiling (ceramic)''] else []) @ mid @
      (if d then [''Demolition & Disposal''] else [])"
    and mid: "''Demolition & Disposal'' \<notin> set mid"
    unfolding names_def d_def parse_tasks_append
    by (simp add: map_if_single split del: if_split cong: if_cong)
  from assms have "d"
    unfolding names_def [symmetric] names using mid by (auto split: if_splits)
  then have t: "py_in ''tile'' (lower text)"
    unfolding d_def by (rule tile_in_demolition_phrases)
  have n: "names = ''Floor Tiling (ceramic)'' # mid @ [''Demolition & Disposal'']"
    unfolding names using t \<open>d\<close> by simp
  have len: "length names = length (tasks (parse_transcript text))"
    by (simp add: names_def)
  have i0: "names ! 0 = ''Floor Tiling (ceramic)''"
    and j: "names ! (Suc (length mid)) = ''Demolition & Disposal''"
    and l: "length names = Suc (Suc (length mid))"
    unfolding n by (simp_all add: nth_append)
  have "0 < Suc (length mid)" by simp
  moreover have "Suc (length mid) < length (tasks (parse_transcript text))"
    using l len by simp
  moreover have "task_name (tasks (parse_transcript text) ! 0) = ''Floor Tiling (ceramic)''"
    using i0 l len unfolding names_def by simp
  moreover have "task_name (tasks (parse_transcript text) ! Suc (length mid))
      = ''Demolition & Disposal''"
    using j l len unfolding names_def by simp
  ultimately show ?thesis by blast
qed

theorem demolition_implies_earlier_tiling_witness:
  "''Demolition & Disposal'' \<in> set (map task_name (tasks (parse_transcript ''Remove old tiles'')))
   \<and> (\<exists>i j. i < j \<and> j < length (tasks (parse_transcript ''Remove old tiles'')) \<and>
           task_name (tasks (parse_transcript ''Remove old tiles'') ! i) = ''Floor Tiling (ceramic)'' \<and>
           task_name (tasks (parse_transcript ''Remove old tiles'') ! j) = ''Demolition & Disposal'')"
proof -
  have a: "''Demolition & Disposal'' \<in> set (map task_name (tasks (parse_transcript ''Remove old tiles'')))"
    by (simp add: eval_defs)
  from demolition_implies_earlier_tiling [OF a] a show ?thesis by blast
qed

lemma at_city_sel:
  "get_material_cost (at_city c P) sku q c' = get_material_cost P sku q c"
  "estimate_hours (at_city c P) = estimate_hours P"
  "compute_labor_cost (at_city c P) h c' = compute_labor_cost P h c"
  "hourly_rate_of (at_city c P) c' = hourly_rate_of P c"
  "get_vat_rate (at_city c P) tname c' = get_vat_rate P tname c"
  by (simp_all add: at_city_def)

lemma at_city_materials: "materials_for (at_city c P) c t = materials_for P c t"
  unfolding materials_for_def at_city_sel ..

lemma at_city_price_task: "price_task (at_city c P) c t = price_task P c t"
  unfolding price_task_def at_city_materials at_city_sel ..

lemma at_city_loop_body: "loop_body (at_city c P) c h st t = loop_body P c h st t"
  unfolding loop_body_def at_city_price_task ..

lemma at_city_run_loop: "run_loop (at_city c P) c h st ts = run_loop P c h st ts"
  by (induction ts arbitrary: st) (simp_all add: at_city_loop_body split: sum.splits)

text \<open>
  C8. A transcript in which none of the trigger phrases occurs yields a quote with no
  task, total price 0, confidence score 0 and the suspicious flag set.
\<close>

theorem no_trigger_empty_quote:
  assumes "list_all (\<lambda>p. \<not> py_in p (lower text))
             [''tile'', ''paint'', ''repaint'', ''plumb'', ''toilet'', ''vanity'',
              ''remove old tile'', ''remove the old tiles'']"
  shows "\<exists>q. build_quote P u text = Inr q \<and> quote_tasks q = [] \<and>
           map zone_tasks (zones q) = [[]] \<and>
           summary_total_price (summary q) = 0 \<and>
           confidence_score (summary q) = 0 \<and>
           suspicious_input (summary q)"
proof -
  have e: "tasks (parse_transcript text) = []"
    unfolding parse_tasks_append using assms by simp
  have "list_all2 (\<lambda>t l. price_task P (city_or_generic (city (parse_transcript text))) t = Inr l)
          (tasks (parse_transcript text)) []"
    unfolding e by simp
  from build_quote_Inr [OF this, of u] show ?thesis
    by (simp add: e quote_tasks_def py_round_zero weighted_confidence_def)
qed

theorem no_trigger_empty_quote_witness:
  "list_all (\<lambda>p. \<not> py_in p (lower ''Hello, a quote for Lyon please''))
     [''tile'', ''paint'', ''repaint'', ''plumb'', ''toilet'', ''vanity'',
      ''remove old tile'', ''remove the old tiles''] \<and>
   (\<exists>q. build_quote sample_providers 7 ''Hello, a quote for Lyon please'' = Inr q \<and>
        quote_tasks q = [] \<and>
        map zone_tasks (zones q) = [[]] \<and>
        summary_total_price (summary q) = 0 \<and>
        confidence_score (summary q) = 0 \<and>
        suspicious_input (summary q))"
proof -
  have a: "list_all (\<lambda>p. \<not> py_in p (lower ''Hello, a quote for Lyon please''))
     [''tile'', ''paint'', ''repaint'', ''plumb'', ''toilet'', ''vanity'',
      ''remove old tile'', ''remove the old tiles'']"
    by (simp add: lower_def lower_char_def)
  from no_trigger_empty_quote [OF a] a show ?thesis by blast
qed

text \<open>
  C10. When no known city name occurs in the transcript, a quote is produced, its
  \<open>client.location\<close> is "Generic", and the quote is the one obtained when every labor,
  material and VAT lookup is made for the city "Generic".
\<close>

theorem unknown_city_is_generic:
  assumes "\<not> py_in ''marseille'' (lower text)" and "\<not> py_in ''paris'' (lower text)"
    and "\<not> py_in ''lyon'' (lower text)"
  shows "(\<exists>q. build_quote P u text = Inr q \<and> location (client q) = ''Generic'') \<and>
         build_quote P u text = build_quote (at_city ''Generic'' P) u text"
proof -
  have c: "city (parse_transcript text) = None"
    using assms by (simp add: parse_transcript_def Let_def search_city_None)
  have g: "city_or_generic (city (parse_transcript text)) = ''Generic''"
    unfolding c by (simp add: city_or_generic_def)
  obtain ls where ls: "list_all2 (\<lambda>t l. price_task P
        (city_or_generic (city (parse_transcript text))) t = Inr l)
      (tasks (parse_transcript text)) ls"
    using parsed_tasks_priced by blast
  have a: "\<exists>q. build_quote P u text = Inr q \<and> location (client q) = ''Generic''"
    unfolding build_quote_Inr [OF ls] by (simp add: g)
  have b: "build_quote P u text = build_quote (at_city ''Generic'' P) u text"
    unfolding build_quote_def Let_def g at_city_run_loop at_city_sel ..
  from a b show ?thesis ..
qed

theorem unknown_city_is_generic_witness:
  "\<not> py_in ''marseille'' (lower ''New toilet in Nice'') \<and>
   \<not> py_in ''paris'' (lower ''New toilet in Nice'') \<and>
   \<not> py_in ''lyon'' (lower ''New toilet in Nice'') \<and>
   (\<exists>q. build_quote sample_providers 7 ''New toilet in Nice'' = Inr q \<and>
        location (client q) = ''Generic'') \<and>
   build_quote sample_providers 7 ''New toilet in Nice''
     = build_quote (at_city ''Generic'' sample_providers) 7 ''New toilet in Nice''"
proof -
  have a: "\<not> py_in ''marseille'' (lower ''New toilet in Nice'')"
    and b: "\<not> py_in ''paris'' (lower ''New toilet in Nice'')"
    and c: "\<not> py_in ''lyon'' (lower ''New toilet in Nice'')"
    by (simp_all add: lower_def lower_char_def)
  from unknown_city_is_generic [OF a b c] a b c show ?thesis by blast
qed

lemma hex_digit_inj: "hex_digit a = hex_digit b \<longleftrightarrow> a mod 16 = b mod 16"
proof -
  have d: "distinct ''0123456789abcdef''" by simp
  have la: "a mod 16 < length ''0123456789abcdef''" by simp
  have lb: "b mod 16 < length ''0123456789abcdef''" by simp
  show ?thesis
    unfolding hex_digit_def using d la lb by (rule nth_eq_iff_index_eq)
qed

lemma digits_determine_mod:
  "(\<forall>k<n. (a div 16 ^ k) mod 16 = (b div 16 ^ k) mod (16::nat))
     \<longleftrightarrow> a mod 16 ^ n = b mod 16 ^ n"
proof (induction n)
  case 0
  show ?case by simp
next
  case (Suc n)
  have split: "x mod 16 ^ Suc n = 16 ^ n * ((x div 16 ^ n) mod 16) + x mod 16 ^ n" for x :: nat
  proof -
    have "x mod 16 ^ Suc n = x mod (16 ^ n * 16)" by (simp add: mult.commute)
    also have "\<dots> = 16 ^ n * ((x div 16 ^ n) mod 16) + x mod 16 ^ n"
      by (rule mod_mult2_eq)
    finally show ?thesis .
  qed
  have low: "x mod 16 ^ n = (x mod 16 ^ Suc n) mod 16 ^ n" for x :: nat
    by (simp add: mod_mod_cancel)
  show ?case
  proof
    assume h: "\<forall>k<Suc n. (a div 16 ^ k) mod 16 = (b div 16 ^ k) mod 16"
    then have "a mod 16 ^ n = b mod 16 ^ n" using Suc.IH by simp
    moreover from h have "(a div 16 ^ n) mod 16 = (b div 16 ^ n) mod 16" by simp
    ultimately show "a mod 16 ^ Suc n = b mod 16 ^ Suc n"
      unfolding split [of a] split [of b] by simp
  next
    assume e: "a mod 16 ^ Suc n = b mod 16 ^ Suc n"
    then have lo: "a mod 16 ^ n = b mod 16 ^ n"
      using low [of a] low [of b] by simp
    with e have "(16::nat) ^ n * ((a div 16 ^ n) mod 16) = 16 ^ n * ((b div 16 ^ n) mod 16)"
      unfolding split [of a] split [of b] by simp
    then have "(a div 16 ^ n) mod 16 = (b div 16 ^ n) mod 16" by simp
    with lo Suc.IH show "\<forall>k<Suc n. (a div 16 ^ k) mod 16 = (b div 16 ^ k) mod 16"
      by (auto simp: less_Suc_eq)
  qed
qed

lemma all_less_8:
  "(\<forall>k<8. Q k) \<longleftrightarrow> Q 0 \<and> Q 1 \<and> Q 2 \<and> Q 3 \<and> Q 4 \<and> Q 5 \<and> Q 6 \<and> Q (7::nat)"
proof
  assume "\<forall>k<8. Q k"
  then show "Q 0 \<and> Q 1 \<and> Q 2 \<and> Q 3 \<and> Q 4 \<and> Q 5 \<and> Q 6 \<and> Q 7" by simp
next
  assume q: "Q 0 \<and> Q 1 \<and> Q 2 \<and> Q 3 \<and> Q 4 \<and> Q 5 \<and> Q 6 \<and> Q 7"
  show "\<forall>k<8. Q k"
  proof (intro allI impI)
    fix k :: nat assume "k < 8"
    then have "k = 0 \<or> k = 1 \<or> k = 2 \<or> k = 3 \<or> k = 4 \<or> k = 5 \<or> k = 6 \<or> k = 7"
      by arith
    with q show "Q k" by blast
  qed
qed

lemma take8_uuid_hex:
  "take 8 (uuid_hex u) =
     [hex_digit ((u div 16 ^ 24) div 16 ^ 7), hex_digit ((u div 16 ^ 24) div 16 ^ 6),
      hex_digit ((u div 16 ^ 24) div 16 ^ 5), hex_digit ((u div 16 ^ 24) div 16 ^ 4),
      hex_digit ((u div 16 ^ 24) div 16 ^ 3), hex_digit ((u div 16 ^ 24) div 16 ^ 2),
      hex_digit ((u div 16 ^ 24) div 16 ^ 1), hex_digit ((u div 16 ^ 24) div 16 ^ 0)]"
proof -
  have e: "(u div 16 ^ 24) div 16 ^ k = u div 16 ^ (24 + k)" for k
    by (simp only: power_add div_mult2_eq)
  have t: "take 8 [0..<32] = [0, 1, 2, 3, 4, 5, 6, 7::nat]"
    by (simp add: upt_rec)
  show ?thesis
    unfolding uuid_hex_def take_map t e by simp
qed

lemma quote_id_eq_iff:
  "generate_quote_id u1 = generate_quote_id u2
     \<longleftrightarrow> (u1 div 2 ^ 96) mod 2 ^ 32 = (u2 div 2 ^ 96) mod 2 ^ 32"
proof -
  have p: "(2::nat) ^ 96 = 16 ^ 24" "(2::nat) ^ 32 = 16 ^ 8" by simp_all
  define m1 where "m1 = u1 div 16 ^ 24"
  define m2 where "m2 = u2 div 16 ^ 24"
  have "generate_quote_id u1 = generate_quote_id u2
      \<longleftrightarrow> (\<forall>k<8. hex_digit (m1 div 16 ^ k) = hex_digit (m2 div 16 ^ k))"
    unfolding generate_quote_id_def take8_uuid_hex all_less_8 m1_def [symmetric]
      m2_def [symmetric]
    by auto
  also have "\<dots> \<longleftrightarrow> m1 mod 16 ^ 8 = m2 mod 16 ^ 8"
    unfolding hex_digit_inj by (rule digits_determine_mod)
  finally show ?thesis unfolding p m1_def m2_def .
qed

lemma uuid4_top_bits: "is_uuid4 u \<Longrightarrow> (u div 2 ^ 96) mod 2 ^ 32 = u div 2 ^ 96"
  unfolding is_uuid4_def by (simp add: less_mult_imp_div_less)

text \<open>
  C7. The claim has two halves. The quotes of two invocations on the same transcript agree
  in every field but \<open>quote_id\<close>: that holds. The identifiers of distinct invocations
  differ: that fails, since the identifier keeps only the first 8 hex digits of the UUID.
  Two different version-4 UUIDs with the same leading 32 bits give the same identifier.
\<close>

theorem quote_id_collision:
  "is_uuid4 (2 ^ 78 + 2 ^ 63) \<and> is_uuid4 (2 ^ 78 + 2 ^ 63 + 1) \<and>
   (2 ^ 78 + 2 ^ 63 :: nat) \<noteq> 2 ^ 78 + 2 ^ 63 + 1 \<and>
   map_sum id quote_id (build_quote sample_providers (2 ^ 78 + 2 ^ 63) sample_text)
     = Inr ''donizo-00000000'' \<and>
   map_sum id quote_id (build_quote sample_providers (2 ^ 78 + 2 ^ 63 + 1) sample_text)
     = Inr ''donizo-00000000''"
proof -
  have a: "is_uuid4 (2 ^ 78 + 2 ^ 63)" and b: "is_uuid4 (2 ^ 78 + 2 ^ 63 + 1)"
    by (simp_all add: is_uuid4_def)
  have c: "generate_quote_id (2 ^ 78 + 2 ^ 63) = ''donizo-00000000''"
    and d: "generate_quote_id (2 ^ 78 + 2 ^ 63 + 1) = ''donizo-00000000''"
    by (simp_all add: generate_quote_id_def uuid_hex_def hex_digit_def upt_rec)
  show ?thesis
    unfolding build_quote_Inr [OF sample_priced] using a b c d by simp
qed

text \<open>
  C7, as amended: for the same transcript, the quotes built with two version-4 UUIDs
  agree in every field but \<open>quote_id\<close>, and their identifiers are equal exactly when
  the two UUIDs have the same leading 32 bits.
\<close>

theorem quote_deterministic_up_to_id:
  assumes "is_uuid4 u1" and "is_uuid4 u2"
  shows "\<exists>q1 q2. build_quote P u1 text = Inr q1 \<and> build_quote P u2 text = Inr q2 \<and>
           q1\<lparr>quote_id := quote_id q2\<rparr> = q2 \<and>
           (quote_id q1 = quote_id q2 \<longleftrightarrow> u1 div 2 ^ 96 = u2 div 2 ^ 96)"
proof -
  obtain ls where ls: "list_all2 (\<lambda>t l. price_task P
        (city_or_generic (city (parse_transcript text))) t = Inr l)
      (tasks (parse_transcript text)) ls"
    using parsed_tasks_priced by blast
  have "generate_quote_id u1 = generate_quote_id u2 \<longleftrightarrow> u1 div 2 ^ 96 = u2 div 2 ^ 96"
    unfolding quote_id_eq_iff uuid4_top_bits [OF assms(1)] uuid4_top_bits [OF assms(2)] ..
  then show ?thesis
    unfolding build_quote_Inr [OF ls] by simp
qed

theorem quote_deterministic_up_to_id_witness:
  "is_uuid4 (2 ^ 78 + 2 ^ 63) \<and> is_uuid4 (2 ^ 127 + 2 ^ 78 + 2 ^ 63) \<and>
   (\<exists>q1 q2. build_quote sample_providers (2 ^ 78 + 2 ^ 63) sample_text = Inr q1 \<and>
        build_quote sample_providers (2 ^ 127 + 2 ^ 78 + 2 ^ 63) sample_text = Inr q2 \<and>
        q1\<lparr>quote_id := quote_id q2\<rparr> = q2 \<and> quote_id q1 \<noteq> quote_id q2)"
proof -
  have a: "is_uuid4 (2 ^ 78 + 2 ^ 63)" and b: "is_uuid4 (2 ^ 127 + 2 ^ 78 + 2 ^ 63)"
    by (simp_all add: is_uuid4_def)
  have c: "(2 ^ 78 + 2 ^ 63) div 2 ^ 96 \<noteq> (2 ^ 127 + 2 ^ 78 + 2 ^ 63) div (2 ^ 96 :: nat)"
    by simp
  from quote_deterministic_up_to_id [OF a b, of sample_providers sample_text] a b c
  show ?thesis by blast
qed









end
